theory Spec2Isabelle
  imports Main "HOL-Library.AList"
begin

section \<open>The Node of chiro.js: connection supervisor, track-end decision, sender\<close>

text \<open>
  The embedding follows the class \<^verbatim>\<open>Node\<close> of the repository (the TypeScript part of
  \<^verbatim>\<open>src/dist/Static/Constants.js\<close>, lines 57 to 451). Objects are kept in a world record:
  the Node objects in a store indexed by references, the fields of the one Manager
  (the static \<^verbatim>\<open>Node._manager\<close>), the pending timers of the event loop, and a trace of
  every call made on an external collaborator (\<^verbatim>\<open>manager.emit\<close>, the websocket, a Player),
  in the order the code makes them. The methods \<^verbatim>\<open>message\<close> and \<^verbatim>\<open>makeRequest\<close> take no part
  in the properties below and are left out.
\<close>

subsection \<open>JavaScript values and \<^verbatim>\<open>JSON.stringify\<close>\<close>

datatype js_error = RangeError string | TypeError string | Error string

text \<open>
  The argument of \<^verbatim>\<open>send\<close> has type \<^verbatim>\<open>unknown\<close>. \<open>JNumber\<close> stands for the integer-valued
  numbers (below the magnitude where JavaScript switches to exponent notation), \<open>JObject\<close>
  for a plain object given by its own enumerable properties in enumeration order, without
  a \<^verbatim>\<open>toJSON\<close> method.
\<close>

datatype js_value =
    JUndefined
  | JNull
  | JBool bool
  | JNumber int
  | JNaN
  | JBigInt int
  | JString string
  | JFunction
  | JSymbol
  | JArray "js_value list"
  | JObject "(string \<times> js_value) list"

text \<open>\<^verbatim>\<open>!data\<close> is true for the falsy values.\<close>

fun truthy :: "js_value \<Rightarrow> bool" where
  "truthy JUndefined = False"
| "truthy JNull = False"
| "truthy (JBool b) = b"
| "truthy (JNumber i) = (i \<noteq> 0)"
| "truthy JNaN = False"
| "truthy (JBigInt i) = (i \<noteq> 0)"
| "truthy (JString s) = (s \<noteq> [])"
| "truthy JFunction = True"
| "truthy JSymbol = True"
| "truthy (JArray xs) = True"
| "truthy (JObject kvs) = True"

definition digit :: "nat \<Rightarrow> char" where
  "digit d = ''0123456789abcdef'' ! d"

function show_nat :: "nat \<Rightarrow> string" where
  "show_nat n = (if n < 10 then [digit n] else show_nat (n div 10) @ [digit (n mod 10)])"
  by pat_completeness auto
termination
  by (relation "measure id") auto

declare show_nat.simps [simp del]

definition show_int :: "int \<Rightarrow> string" where
  "show_int i = (if i < 0 then CHR ''-'' # show_nat (nat (- i)) else show_nat (nat i))"

text \<open>The quoting of a string by \<^verbatim>\<open>JSON.stringify\<close>: the quote, the backslash and the
  control characters are escaped.\<close>

definition escape_char :: "char \<Rightarrow> string" where
  "escape_char c =
     (if c = CHR 0x22 then [CHR 0x5C, CHR 0x22]
      else if c = CHR 0x5C then [CHR 0x5C, CHR 0x5C]
      else if c = CHR 0x08 then [CHR 0x5C, CHR ''b'']
      else if c = CHR 0x0C then [CHR 0x5C, CHR ''f'']
      else if c = CHR 0x0A then [CHR 0x5C, CHR ''n'']
      else if c = CHR 0x0D then [CHR 0x5C, CHR ''r'']
      else if c = CHR 0x09 then [CHR 0x5C, CHR ''t'']
      else if (of_char c :: nat) < 32
        then [CHR 0x5C, CHR ''u'', CHR ''0'', CHR ''0'',
              digit ((of_char c :: nat) div 16), digit ((of_char c :: nat) mod 16)]
      else [c])"

definition quote :: "string \<Rightarrow> string" where
  "quote s = CHR 0x22 # concat (map escape_char s) @ [CHR 0x22]"

fun join :: "string list \<Rightarrow> string" where
  "join [] = []"
| "join [s] = s"
| "join (s # ss) = s @ '','' @ join ss"

text \<open>
  \<^verbatim>\<open>JSON.stringify(data)\<close>: \<open>Inl\<close> is the TypeError it throws on a BigInt, \<open>Inr None\<close> the
  value \<^verbatim>\<open>undefined\<close> it returns for \<^verbatim>\<open>undefined\<close>, a function or a symbol, \<open>Inr (Some s)\<close>
  the text. Inside an array such a value is written \<^verbatim>\<open>null\<close>, inside an object the
  property is left out.
\<close>

fun JSON_stringify :: "js_value \<Rightarrow> js_error + string option"
  and serialize_elements :: "js_value list \<Rightarrow> js_error + string list"
  and serialize_properties :: "(string \<times> js_value) list \<Rightarrow> js_error + string list"
where
  "JSON_stringify JUndefined = Inr None"
| "JSON_stringify JNull = Inr (Some ''null'')"
| "JSON_stringify (JBool b) = Inr (Some (if b then ''true'' else ''false''))"
| "JSON_stringify (JNumber i) = Inr (Some (show_int i))"
| "JSON_stringify JNaN = Inr (Some ''null'')"
| "JSON_stringify (JBigInt i) = Inl (TypeError ''Do not know how to serialize a BigInt'')"
| "JSON_stringify (JString s) = Inr (Some (quote s))"
| "JSON_stringify JFunction = Inr None"
| "JSON_stringify JSymbol = Inr None"
| "JSON_stringify (JArray xs) =
     (case serialize_elements xs of
        Inl e \<Rightarrow> Inl e
      | Inr ss \<Rightarrow> Inr (Some (''['' @ join ss @ '']'')))"
| "JSON_stringify (JObject kvs) =
     (case serialize_properties kvs of
        Inl e \<Rightarrow> Inl e
      | Inr ss \<Rightarrow> Inr (Some (''{'' @ join ss @ ''}'')))"
| "serialize_elements [] = Inr []"
| "serialize_elements (x # xs) =
     (case JSON_stringify x of
        Inl e \<Rightarrow> Inl e
      | Inr r \<Rightarrow>
          (case serialize_elements xs of
             Inl e \<Rightarrow> Inl e
           | Inr ss \<Rightarrow> Inr ((case r of None \<Rightarrow> ''null'' | Some s \<Rightarrow> s) # ss)))"
| "serialize_properties [] = Inr []"
| "serialize_properties ((k, v) # kvs) =
     (case JSON_stringify v of
        Inl e \<Rightarrow> Inl e
      | Inr r \<Rightarrow>
          (case serialize_properties kvs of
             Inl e \<Rightarrow> Inl e
           | Inr ss \<Rightarrow>
               Inr ((case r of None \<Rightarrow> [] | Some s \<Rightarrow> [quote k @ '':'' @ s]) @ ss)))"

definition startsWith :: "string \<Rightarrow> string \<Rightarrow> bool" where
  "startsWith s p = (take (length p) s = p)"

subsection \<open>Data: options, websocket, Node, queue, Player\<close>

type_synonym ref = nat
type_synonym timer = nat
type_synonym guild = string
type_synonym track = string

text \<open>\<^verbatim>\<open>NodeOptions\<close>, as its typedef comment lists it; \<open>None\<close> is an absent key.\<close>

record node_options =
  host :: "string option"
  port :: "int option"
  password :: "string option"
  secure :: "bool option"
  node_identifier :: "string option"
  retryAmount :: "int option"
  retryDelay :: "int option"
  requestTimeout :: "int option"

datatype ready_state = CONNECTING | OPEN | CLOSING | CLOSED

record websocket =
  url :: string
  authorization :: "string option"
  client_id :: "string option"
  readyState :: ready_state
  listening :: bool

record node =
  options :: node_options
  socket :: "websocket option"
  reconnectTimeout :: "timer option"
  reconnectAttempts :: int

text \<open>
  Modelled from the spec: the queue container is not part of the sources. The spec has it
  as an ordered sequence with the slots \<open>current\<close> and \<open>previous\<close> and the operations
  \<open>length\<close>, \<open>shift\<close> (pop the next queued entry) and \<open>add\<close> (append to the tail). An entry
  is \<open>None\<close> where the array slot holds no track, which is what \<^verbatim>\<open>shift()\<close> then returns.
\<close>

record queue =
  items :: "track option list"
  current :: "track option"
  previous :: "track option"

definition queue_length :: "queue \<Rightarrow> nat" where
  "queue_length q = length (items q)"

definition queue_shift :: "queue \<Rightarrow> track option \<times> queue" where
  "queue_shift q = (case items q of [] \<Rightarrow> (None, q) | x # xs \<Rightarrow> (x, q\<lparr>items := xs\<rparr>))"

definition queue_add :: "track option \<Rightarrow> queue \<Rightarrow> queue" where
  "queue_add t q = q\<lparr>items := items q @ [t]\<rparr>"

record player =
  guild_id :: guild
  pnode :: ref
  playing :: bool
  paused :: bool
  trackRepeat :: bool
  queueRepeat :: bool
  queue :: queue

record payload =
  p_op :: "int option"
  p_t :: "string option"
  p_guild_id :: guild

subsection \<open>Events and calls on collaborators\<close>

datatype event =
    NodeCreate ref
  | NodeConnect ref
  | NodeDisconnect ref int string
  | NodeReconnect ref
  | NodeError ref js_error
  | NodeDestroy ref
  | TrackStart guild "track option" payload
  | TrackEnd guild "track option"
  | TrackError payload
  | QueueEnd guild payload
  | NodeUnknownEvent payload

text \<open>
  \<open>Emit\<close> is \<^verbatim>\<open>manager.emit\<close>; the other entries are the calls on the websocket and on a
  Player (\<^verbatim>\<open>Player.destroy\<close> and \<^verbatim>\<open>Player.play\<close> are outside the sources: the call is
  recorded, with the guild of the Player).
\<close>

datatype effect =
    Emit event
  | WebSocket_new string
  | Socket_close int string
  | Socket_removeAllListeners
  | Socket_send string
  | Player_destroy guild
  | Player_play guild

record world =
  manager_initiated :: bool
  nodes :: "ref \<Rightarrow> node"
  next_ref :: ref
  manager_node :: "ref option"
  players :: "(guild \<times> player) list"
  clientID :: "string option"
  timers :: "(timer \<times> ref) list"
  next_timer :: timer
  trace :: "effect list"

definition emit :: "event \<Rightarrow> world \<Rightarrow> world" where
  "emit e w = w\<lparr>trace := trace w @ [Emit e]\<rparr>"

definition call :: "effect \<Rightarrow> world \<Rightarrow> world" where
  "call c w = w\<lparr>trace := trace w @ [c]\<rparr>"

definition update_node :: "ref \<Rightarrow> (node \<Rightarrow> node) \<Rightarrow> world \<Rightarrow> world" where
  "update_node this f w = w\<lparr>nodes := (nodes w)(this := f (nodes w this))\<rparr>"

text \<open>
  The timers of the event loop: \<open>setTimeout\<close> registers the reconnect callback of a Node
  under a fresh handle, \<open>clearTimeout\<close> cancels the timer of a handle (\<open>None\<close> is an
  \<^verbatim>\<open>undefined\<close> handle, a handle that is not pending is ignored). The delay is not modelled.
\<close>

definition setTimeout :: "ref \<Rightarrow> world \<Rightarrow> timer \<times> world" where
  "setTimeout owner w =
     (next_timer w,
      w\<lparr>timers := timers w @ [(next_timer w, owner)], next_timer := next_timer w + 1\<rparr>)"

definition clearTimeout :: "timer option \<Rightarrow> world \<Rightarrow> world" where
  "clearTimeout h w =
     (case h of
        None \<Rightarrow> w
      | Some t \<Rightarrow> w\<lparr>timers := filter (\<lambda>e. fst e \<noteq> t) (timers w)\<rparr>)"

definition pending :: "ref \<Rightarrow> world \<Rightarrow> timer list" where
  "pending this w = map fst (filter (\<lambda>e. snd e = this) (timers w))"

text \<open>
  Modelled from the spec: \<^verbatim>\<open>Manager.destroyNode\<close> is not part of the sources; the spec has
  it remove the Node from the active slot of the registry.
\<close>

definition Manager_destroyNode :: "world \<Rightarrow> world" where
  "Manager_destroyNode w = w\<lparr>manager_node := None\<rparr>"

subsection \<open>The Node: constructor, connect, destroy, reconnect and the socket handlers\<close>

text \<open>
  The constructor. \<open>random_password\<close> is what \<^verbatim>\<open>generateRandomPassword()\<close> returned. The
  defaults are overridden by the keys that the caller gave. Where the slot of the Manager
  is occupied the constructor returns the Node of the slot; the object that \<^verbatim>\<open>new\<close> had
  allocated is dropped, and the store does not record it.
\<close>

definition with_defaults :: "string \<Rightarrow> node_options \<Rightarrow> node_options" where
  "with_defaults random_password opts =
     opts\<lparr>port := (case port opts of None \<Rightarrow> Some 3000 | Some p \<Rightarrow> Some p),
          password := (case password opts of None \<Rightarrow> Some random_password | Some p \<Rightarrow> Some p),
          secure := (case secure opts of None \<Rightarrow> Some False | Some b \<Rightarrow> Some b),
          retryAmount := (case retryAmount opts of None \<Rightarrow> Some 5 | Some n \<Rightarrow> Some n),
          retryDelay := (case retryDelay opts of None \<Rightarrow> Some 30000 | Some n \<Rightarrow> Some n)\<rparr>"

definition Node_constructor :: "node_options \<Rightarrow> string \<Rightarrow> world \<Rightarrow> js_error + (ref \<times> world)" where
  "Node_constructor opts random_password w =
     (if \<not> manager_initiated w then Inl (RangeError ''Manager has not been initiated.'')
      else case manager_node w of
        Some existing \<Rightarrow> Inr (existing, w)
      | None \<Rightarrow>
          let this = next_ref w;
              n = \<lparr>options = with_defaults random_password opts, socket = None,
                   reconnectTimeout = None, reconnectAttempts = 1\<rparr>;
              w1 = w\<lparr>nodes := (nodes w)(this := n), next_ref := this + 1\<rparr>;
              w2 = w1\<lparr>manager_node := Some this\<rparr>
          in Inr (this, emit (NodeCreate this) w2))"

definition initStaticManager :: "world \<Rightarrow> world" where
  "initStaticManager w = w\<lparr>manager_initiated := True\<rparr>"

definition connected :: "node \<Rightarrow> bool" where
  "connected n = (case socket n of None \<Rightarrow> False | Some s \<Rightarrow> readyState s = OPEN)"

definition socket_url :: "node_options \<Rightarrow> string" where
  "socket_url opts =
     ''ws'' @ (if secure opts = Some True then ''s'' else []) @ ''://''
       @ (case host opts of None \<Rightarrow> ''undefined'' | Some h \<Rightarrow> h) @ '':''
       @ (case port opts of None \<Rightarrow> ''undefined'' | Some p \<Rightarrow> show_int p) @ ''/''"

definition connect :: "ref \<Rightarrow> world \<Rightarrow> world" where
  "connect this w =
     (let n = nodes w this in
      if connected n then w
      else
        let s = \<lparr>url = socket_url (options n), authorization = password (options n),
                 client_id = clientID w, readyState = CONNECTING, listening = True\<rparr>;
            w1 = call (WebSocket_new (url s)) w
        in update_node this (\<lambda>n. n\<lparr>socket := Some s\<rparr>) w1)"

definition destroy :: "ref \<Rightarrow> world \<Rightarrow> world" where
  "destroy this w =
     (if \<not> connected (nodes w this) then w
      else
        let bound = filter (\<lambda>p. pnode p = this) (map snd (players w));
            w1 = w\<lparr>trace := trace w @ map (\<lambda>p. Player_destroy (guild_id p)) bound\<rparr>;
            w2 = call (Socket_close 1000 ''destroy'') w1;
            w3 = call Socket_removeAllListeners w2;
            w4 = update_node this (\<lambda>n. n\<lparr>socket := None\<rparr>) w3;
            w5 = update_node this (\<lambda>n. n\<lparr>reconnectAttempts := 1\<rparr>) w4;
            w6 = clearTimeout (reconnectTimeout (nodes w5 this)) w5;
            w7 = emit (NodeDestroy this) w6
        in Manager_destroyNode w7)"

text \<open>
  The callback that \<open>reconnect\<close> hands to \<^verbatim>\<open>setTimeout\<close>. With no socket left its second
  branch reads a property of \<^verbatim>\<open>null\<close>, which throws.
\<close>

definition exhausted :: "node \<Rightarrow> bool" where
  "exhausted n =
     (case retryAmount (options n) of None \<Rightarrow> False | Some r \<Rightarrow> r \<le> reconnectAttempts n)"

definition unable_to_connect :: "node \<Rightarrow> js_error" where
  "unable_to_connect n =
     Error (''Unable to connect after ''
            @ (case retryAmount (options n) of None \<Rightarrow> ''undefined'' | Some r \<Rightarrow> show_int r)
            @ '' attempts.'')"

definition reconnect_callback :: "ref \<Rightarrow> world \<Rightarrow> js_error + world" where
  "reconnect_callback this w =
     (if exhausted (nodes w this) then
        Inr (destroy this (emit (NodeError this (unable_to_connect (nodes w this))) w))
      else
        (case socket (nodes w this) of
           None \<Rightarrow> Inl (TypeError ''Cannot read properties of null'')
         | Some s \<Rightarrow>
             let w1 = call Socket_removeAllListeners w;
                 w2 = update_node this (\<lambda>n. n\<lparr>socket := None\<rparr>) w1;
                 w3 = emit (NodeReconnect this) w2;
                 w4 = connect this w3
             in Inr (update_node this (\<lambda>n. n\<lparr>reconnectAttempts := reconnectAttempts n + 1\<rparr>) w4)))"

definition reconnect :: "ref \<Rightarrow> world \<Rightarrow> world" where
  "reconnect this w =
     (case socket (nodes w this) of
        None \<Rightarrow> w
      | Some s \<Rightarrow>
          let (t, w1) = setTimeout this w
          in update_node this (\<lambda>n. n\<lparr>reconnectTimeout := Some t\<rparr>) w1)"

text \<open>The event loop runs a pending timer: the timer leaves the pending ones and the
  callback of its Node runs. A handle that is not pending fires nothing.\<close>

definition fire_timer :: "timer \<Rightarrow> world \<Rightarrow> js_error + world" where
  "fire_timer t w =
     (case map_of (timers w) t of
        None \<Rightarrow> Inr w
      | Some this \<Rightarrow>
          reconnect_callback this (w\<lparr>timers := filter (\<lambda>e. fst e \<noteq> t) (timers w)\<rparr>))"

definition "open" :: "ref \<Rightarrow> world \<Rightarrow> world" where
  "open this w =
     emit (NodeConnect this)
       (case reconnectTimeout (nodes w this) of
          None \<Rightarrow> w
        | Some t \<Rightarrow> clearTimeout (Some t) w)"

definition close :: "ref \<Rightarrow> int \<Rightarrow> string \<Rightarrow> world \<Rightarrow> world" where
  "close this code reason w =
     (let w1 = emit (NodeDisconnect this code reason) w
      in if code \<noteq> 1000 \<or> reason \<noteq> ''destroy'' then reconnect this w1 else w1)"

definition error :: "ref \<Rightarrow> js_error option \<Rightarrow> world \<Rightarrow> world" where
  "error this err w = (case err of None \<Rightarrow> w | Some e \<Rightarrow> emit (NodeError this e) w)"

subsection \<open>Track events\<close>

definition queueEnd :: "player \<Rightarrow> payload \<Rightarrow> effect list" where
  "queueEnd player pl = [Emit (QueueEnd (guild_id player) pl)]"

text \<open>\<open>trackEnd\<close> returns the Player as it leaves it and the calls it made, in order.\<close>

definition trackEnd :: "player \<Rightarrow> track option \<Rightarrow> payload \<Rightarrow> player \<times> effect list" where
  "trackEnd player track pl =
     (if queue_length (queue player) = 0 then (player, queueEnd player pl)
      else if track \<noteq> None \<and> trackRepeat player then
        (if current (queue player) = None then (player, queueEnd player pl)
         else (player, [Emit (TrackEnd (guild_id player) track), Player_play (guild_id player)]))
      else
        let q1 = (queue player)\<lparr>previous := current (queue player)\<rparr>;
            (next, q2) = queue_shift q1;
            q3 = q2\<lparr>current := next\<rparr>;
            player1 = player\<lparr>queue := q3\<rparr>
        in if track \<noteq> None \<and> queueRepeat player1 then
             (if current (queue player1) = None then (player1, queueEnd player1 pl)
              else
                (player1\<lparr>queue := queue_add (previous (queue player1)) (queue player1)\<rparr>,
                 [Emit (TrackEnd (guild_id player1) track), Player_play (guild_id player1)]))
           else if queue_length (queue player1) \<noteq> 0 then
             (player1, [Emit (TrackEnd (guild_id player1) track), Player_play (guild_id player1)])
           else (player1, []))"

definition handleTrackEvent :: "payload \<Rightarrow> world \<Rightarrow> world" where
  "handleTrackEvent pl w =
     (case map_of (players w) (p_guild_id pl) of
        None \<Rightarrow> w
      | Some player \<Rightarrow>
          let track = current (queue player) in
          if p_t pl = Some ''TRACK_START'' then
            emit (TrackStart (guild_id player) track pl)
              (w\<lparr>players := AList.update (p_guild_id pl)
                                (player\<lparr>playing := True, paused := False\<rparr>) (players w)\<rparr>)
          else if p_t pl = Some ''QUEUE_END'' then
            (let (player', calls) = trackEnd player track pl
             in w\<lparr>players := AList.update (p_guild_id pl) player' (players w),
                  trace := trace w @ calls\<rparr>)
          else if p_t pl = Some ''TRACK_ERROR'' then
            (let w1 = emit (TrackError pl) w;
                 (player', calls) = trackEnd player track pl
             in w1\<lparr>players := AList.update (p_guild_id pl) player' (players w1),
                   trace := trace w1 @ calls\<rparr>)
          else emit (NodeUnknownEvent pl) w)"

subsection \<open>The sender\<close>

text \<open>
  \<open>send\<close> returns how its promise settles. A throw inside the executor of the promise
  rejects it. \<open>write_error\<close> is the error that the websocket hands to the callback of its
  \<^verbatim>\<open>send\<close>, if any.
\<close>

datatype 'a promise = Resolved 'a | Rejected js_error

definition improper_data :: js_error where
  "improper_data = Error ''Improper data sent to send in the WS.''"

definition send :: "js_value \<Rightarrow> js_error option \<Rightarrow> ref \<Rightarrow> world \<Rightarrow> bool promise \<times> world" where
  "send data write_error this w =
     (case JSON_stringify data of
        Inl e \<Rightarrow> (Rejected e, w)
      | Inr stringified \<Rightarrow>
          if \<not> connected (nodes w this) then (Resolved False, w)
          else if \<not> truthy data then (Rejected improper_data, w)
          else
            (case stringified of
               None \<Rightarrow> (Rejected (TypeError ''Cannot read properties of undefined''), w)
             | Some s \<Rightarrow>
                 if \<not> startsWith s ''{'' then (Rejected improper_data, w)
                 else
                   (case write_error of
                      Some e \<Rightarrow> Rejected e
                    | None \<Rightarrow> Resolved True,
                    call (Socket_send s) w)))"

subsection \<open>Notions used by the properties\<close>

text \<open>A payload is object-shaped when \<^verbatim>\<open>JSON.stringify\<close> returns a text for it that starts
  with the opening brace.\<close>

definition object_shaped :: "js_value \<Rightarrow> bool" where
  "object_shaped data =
     (case JSON_stringify data of
        Inl e \<Rightarrow> False
      | Inr None \<Rightarrow> False
      | Inr (Some s) \<Rightarrow> startsWith s ''{'')"

text \<open>The entries of the trace that signal \<^verbatim>\<open>nodeError\<close> for a Node.\<close>

fun is_node_error :: "ref \<Rightarrow> effect \<Rightarrow> bool" where
  "is_node_error r (Emit (NodeError r' e)) = (r = r')"
| "is_node_error r c = False"

text \<open>The calls that \<open>destroy\<close> makes: none when the Node is not connected.\<close>

definition destroy_calls :: "ref \<Rightarrow> world \<Rightarrow> effect list" where
  "destroy_calls this w =
     (if \<not> connected (nodes w this) then []
      else map (\<lambda>p. Player_destroy (guild_id p)) (filter (\<lambda>p. pnode p = this) (map snd (players w)))
           @ [Socket_close 1000 ''destroy'', Socket_removeAllListeners, Emit (NodeDestroy this)])"

subsection \<open>A concrete Manager with one Node and one Player\<close>

definition example_options :: node_options where
  "example_options =
     \<lparr>host = Some ''localhost'', port = Some 3000, password = Some ''secret'',
      secure = Some False, node_identifier = None, retryAmount = Some 5,
      retryDelay = Some 30000, requestTimeout = None\<rparr>"

definition example_socket :: "ready_state \<Rightarrow> websocket" where
  "example_socket st =
     \<lparr>url = ''ws://localhost:3000/'', authorization = Some ''secret'',
      client_id = Some ''bot'', readyState = st, listening = True\<rparr>"

definition example_node :: "websocket option \<Rightarrow> timer option \<Rightarrow> int \<Rightarrow> node" where
  "example_node s h k =
     \<lparr>options = example_options, socket = s, reconnectTimeout = h, reconnectAttempts = k\<rparr>"

definition example_player :: "bool \<Rightarrow> bool \<Rightarrow> track option list \<Rightarrow> player" where
  "example_player tr qr xs =
     \<lparr>guild_id = ''g1'', pnode = 0, playing = True, paused = False, trackRepeat = tr,
      queueRepeat = qr, queue = \<lparr>items = xs, current = Some ''A'', previous = None\<rparr>\<rparr>"

definition example_world :: "node \<Rightarrow> (timer \<times> ref) list \<Rightarrow> world" where
  "example_world n ts =
     \<lparr>manager_initiated = True, nodes = (\<lambda>r. n), next_ref = 1, manager_node = Some 0,
      players = [(''g1'', example_player False False [Some ''B''])], clientID = Some ''bot'',
      timers = ts, next_timer = 7, trace = []\<rparr>"

text \<open>The Node with an open socket; with a socket that has closed and the reconnect
  timer 3 pending, after 5 attempts; and after its socket handle was set to null.\<close>

definition world_open :: world where
  "world_open = example_world (example_node (Some (example_socket OPEN)) None 1) []"

definition world_closed :: world where
  "world_closed = example_world (example_node (Some (example_socket CLOSED)) (Some 3) 5) [(3, 0)]"

definition world_null :: world where
  "world_null = example_world (example_node None None 1) []"

text \<open>The Node after a manual \<^verbatim>\<open>connect()\<close> whose socket closed as well: the close handler
  armed timer 7 while timer 3 was still pending. Then the world that the firing of timer
  3 leaves, and the one that the firing of timer 7 leaves after it.\<close>

definition world_two_timers :: world where
  "world_two_timers = close 0 1006 [] (connect 0 world_closed)"

definition world_first_fired :: world where
  "world_first_fired =
     emit (NodeError 0 (unable_to_connect (nodes world_two_timers 0)))
       (world_two_timers\<lparr>timers := [(7, 0)]\<rparr>)"

definition world_second_fired :: world where
  "world_second_fired =
     emit (NodeError 0 (unable_to_connect (nodes world_first_fired 0)))
       (world_first_fired\<lparr>timers := []\<rparr>)"

text \<open>The Node with an open socket and two timers pending, the later one under the
  stored handle, after 5 attempts.\<close>

definition world_open_two_timers :: world where
  "world_open_two_timers =
     example_world (example_node (Some (example_socket OPEN)) (Some 4) 5) [(3, 0), (4, 0)]"

definition example_payload :: payload where
  "example_payload = \<lparr>p_op = None, p_t = Some ''QUEUE_END'', p_guild_id = ''g1''\<rparr>"

lemmas example_defs =
  example_options_def example_socket_def example_node_def example_player_def
  example_world_def world_open_def world_closed_def

lemmas world_defs =
  emit_def call_def update_node_def clearTimeout_def Manager_destroyNode_def connected_def

section \<open>Properties\<close>

subsection \<open>destroy\<close>

lemma not_connected_destroy: "\<not> connected (nodes (destroy this w) this)"
  by (simp add: destroy_def Let_def world_defs split: option.splits)

lemma trace_destroy: "trace (destroy this w) = trace w @ destroy_calls this w"
  by (simp add: destroy_def destroy_calls_def Let_def world_defs split: option.splits)

lemma node_error_destroy_calls: "filter (is_node_error r) (destroy_calls this w) = []"
  by (simp add: destroy_calls_def filter_empty_conv)

lemma pending_destroy: "set (pending this (destroy this w)) \<subseteq> set (pending this w)"
  by (auto simp add: destroy_def pending_def Let_def world_defs split: option.splits)

text \<open>
  C9. \<open>destroy\<close> is idempotent: a second call in a row returns the world of the first,
  trace included, so it signals nothing again; and on a Node that is not connected
  \<open>destroy\<close> changes nothing.
\<close>

theorem destroy_idempotent:
  "destroy this (destroy this w) = destroy this w
   \<and> (\<not> connected (nodes w this) \<longrightarrow> destroy this w = w)"
proof
  have "\<not> connected (nodes (destroy this w) this)"
    by (rule not_connected_destroy)
  then show "destroy this (destroy this w) = destroy this w"
    by (subst destroy_def) simp
  show "\<not> connected (nodes w this) \<longrightarrow> destroy this w = w"
    by (simp add: destroy_def)
qed

theorem destroy_idempotent_witness:
  "\<not> connected (nodes world_closed 0) \<and> destroy 0 world_closed = world_closed
   \<and> connected (nodes world_open 0)
   \<and> trace (destroy 0 (destroy 0 world_open))
       = [Player_destroy ''g1'', Socket_close 1000 ''destroy'', Socket_removeAllListeners,
          Emit (NodeDestroy 0)]"
proof -
  have closed: "\<not> connected (nodes world_closed 0)"
    by (simp add: example_defs connected_def)
  have "trace (destroy 0 world_open)
          = [Player_destroy ''g1'', Socket_close 1000 ''destroy'', Socket_removeAllListeners,
             Emit (NodeDestroy 0)]"
    by (simp add: trace_destroy destroy_calls_def example_defs connected_def)
  with closed destroy_idempotent [of 0 world_closed] destroy_idempotent [of 0 world_open]
  show ?thesis
    by (simp add: example_defs connected_def)
qed

subsection \<open>The reconnect timer\<close>

lemma destroy_connected:
  assumes "connected (nodes w this)"
  shows "socket (nodes (destroy this w) this) = None"
    and "reconnectAttempts (nodes (destroy this w) this) = 1"
    and "manager_node (destroy this w) = None"
    and "last (trace (destroy this w)) = Emit (NodeDestroy this)"
    and "reconnectTimeout (nodes w this) = Some h \<Longrightarrow> h \<notin> fst ` set (timers (destroy this w))"
  using assms
  by (auto simp add: destroy_def Let_def world_defs split: option.splits)

text \<open>
  C1, as the claim states it, fails: with two reconnect timers outstanding and the socket
  not open, the timer that fires first signals the node-error, the \<open>destroy\<close> it calls
  returns at its guard, and the second timer stays pending; when that one fires, the
  node-error is signaled a second time.
\<close>

theorem second_timer_stays_pending:
  "map_of (timers world_two_timers) 3 = Some 0
   \<and> retryAmount (options (nodes world_two_timers 0)) = Some 5
   \<and> 5 \<le> reconnectAttempts (nodes world_two_timers 0)
   \<and> fire_timer 3 world_two_timers = Inr world_first_fired
   \<and> pending 0 world_first_fired = [7]
   \<and> fire_timer 7 world_first_fired = Inr world_second_fired
   \<and> length (filter (is_node_error 0) (trace world_second_fired)) = 2"
  by (simp add: world_two_timers_def world_first_fired_def world_second_fired_def
      fire_timer_def reconnect_callback_def exhausted_def destroy_def close_def reconnect_def
      connect_def setTimeout_def pending_def Let_def example_defs world_defs)

text \<open>
  C1, amended. The reconnect timer \<open>t\<close> of a Node fires when the attempt counter has
  reached the configured \<open>retryAmount\<close>. Then the callback returns without throwing; what
  it leaves is \<open>destroy\<close> applied after the node-error signal; the trace grows by calls
  among which exactly one signals \<^verbatim>\<open>nodeError\<close> for the Node; the Node is not connected.
  With the socket open at that moment \<open>destroy\<close> tears the Node down: the socket handle is
  null, the counter is 1, the slot of the Manager is empty, \<^verbatim>\<open>nodeDestroy\<close> is the last
  signal, and the timer of the stored handle is cancelled. With the socket not open
  \<open>destroy\<close> returns at its guard and the node-error signal is all that happens. The timer
  that fired is no longer pending and no timer was armed, so with \<open>t\<close> the one outstanding
  timer of the Node, none is pending.
\<close>

theorem exhausted_retries_terminal:
  assumes owner: "map_of (timers w) t = Some this"
    and amount: "retryAmount (options (nodes w this)) = Some r"
    and reached: "r \<le> reconnectAttempts (nodes w this)"
  shows "\<exists>w'. fire_timer t w = Inr w'
           \<and> w' = destroy this
                    (emit (NodeError this (unable_to_connect (nodes w this)))
                       (w\<lparr>timers := filter (\<lambda>e. fst e \<noteq> t) (timers w)\<rparr>))
           \<and> take (length (trace w)) (trace w') = trace w
           \<and> length (filter (is_node_error this) (drop (length (trace w)) (trace w'))) = 1
           \<and> \<not> connected (nodes w' this)
           \<and> (connected (nodes w this) \<longrightarrow>
                 socket (nodes w' this) = None
                 \<and> reconnectAttempts (nodes w' this) = 1
                 \<and> manager_node w' = None
                 \<and> last (trace w') = Emit (NodeDestroy this)
                 \<and> (\<forall>h. reconnectTimeout (nodes w this) = Some h \<longrightarrow>
                        h \<notin> fst ` set (timers w')))
           \<and> (\<not> connected (nodes w this) \<longrightarrow>
                 w' = emit (NodeError this (unable_to_connect (nodes w this)))
                        (w\<lparr>timers := filter (\<lambda>e. fst e \<noteq> t) (timers w)\<rparr>))
           \<and> set (pending this w') \<subseteq> set (pending this w) - {t}
           \<and> (pending this w = [t] \<longrightarrow> pending this w' = [])"
proof -
  let ?w0 = "w\<lparr>timers := filter (\<lambda>e. fst e \<noteq> t) (timers w)\<rparr>"
  let ?w1 = "emit (NodeError this (unable_to_connect (nodes w this))) ?w0"
  let ?w' = "destroy this ?w1"
  have ex: "exhausted (nodes ?w0 this)"
    using amount reached by (simp add: exhausted_def)
  have fire: "fire_timer t w = Inr ?w'"
    using owner ex by (simp add: fire_timer_def reconnect_callback_def)
  have tr: "trace ?w' = trace w @ Emit (NodeError this (unable_to_connect (nodes w this)))
                          # destroy_calls this ?w1"
    by (simp add: trace_destroy emit_def)
  have pre: "take (length (trace w)) (trace ?w') = trace w"
    by (simp add: tr)
  have once: "length (filter (is_node_error this) (drop (length (trace w)) (trace ?w'))) = 1"
    by (simp add: tr node_error_destroy_calls)
  have same: "nodes ?w1 = nodes w"
    by (simp add: emit_def)
  have torn: "connected (nodes w this) \<longrightarrow>
                 socket (nodes ?w' this) = None
                 \<and> reconnectAttempts (nodes ?w' this) = 1
                 \<and> manager_node ?w' = None
                 \<and> last (trace ?w') = Emit (NodeDestroy this)
                 \<and> (\<forall>h. reconnectTimeout (nodes w this) = Some h \<longrightarrow>
                        h \<notin> fst ` set (timers ?w'))"
    using destroy_connected [of ?w1 this] same by simp
  have guard: "\<not> connected (nodes w this) \<longrightarrow> ?w' = ?w1"
    using same by (simp add: destroy_def)
  have "set (pending this ?w1) = set (pending this w) - {t}"
    by (auto simp add: pending_def emit_def)
  with pending_destroy [of this ?w1]
  have sub: "set (pending this ?w') \<subseteq> set (pending this w) - {t}"
    by simp
  then have none: "pending this w = [t] \<longrightarrow> pending this ?w' = []"
    by auto
  from fire pre once torn guard sub none not_connected_destroy [of this ?w1] show ?thesis
    by blast
qed

theorem exhausted_retries_terminal_witness:
  "map_of (timers world_closed) 3 = Some 0
   \<and> retryAmount (options (nodes world_closed 0)) = Some 5
   \<and> 5 \<le> reconnectAttempts (nodes world_closed 0)
   \<and> \<not> connected (nodes world_closed 0)
   \<and> pending 0 world_closed = [3]
   \<and> (\<exists>w'. fire_timer 3 world_closed = Inr w'
         \<and> trace w' = [Emit (NodeError 0 (unable_to_connect (nodes world_closed 0)))]
         \<and> \<not> connected (nodes w' 0) \<and> pending 0 w' = [])
   \<and> map_of (timers world_open_two_timers) 3 = Some 0
   \<and> retryAmount (options (nodes world_open_two_timers 0)) = Some 5
   \<and> 5 \<le> reconnectAttempts (nodes world_open_two_timers 0)
   \<and> connected (nodes world_open_two_timers 0)
   \<and> reconnectTimeout (nodes world_open_two_timers 0) = Some 4
   \<and> pending 0 world_open_two_timers = [3, 4]
   \<and> (\<exists>w'. fire_timer 3 world_open_two_timers = Inr w'
         \<and> socket (nodes w' 0) = None \<and> reconnectAttempts (nodes w' 0) = 1
         \<and> manager_node w' = None \<and> last (trace w') = Emit (NodeDestroy 0)
         \<and> 4 \<notin> fst ` set (timers w'))"
proof -
  have h1: "map_of (timers world_closed) 3 = Some 0"
    and h2: "retryAmount (options (nodes world_closed 0)) = Some 5"
    and h3: "5 \<le> reconnectAttempts (nodes world_closed 0)"
    and h4: "pending 0 world_closed = [3]"
    and h5: "\<not> connected (nodes world_closed 0)"
    by (simp_all add: example_defs pending_def connected_def)
  have g1: "map_of (timers world_open_two_timers) 3 = Some 0"
    and g2: "retryAmount (options (nodes world_open_two_timers 0)) = Some 5"
    and g3: "5 \<le> reconnectAttempts (nodes world_open_two_timers 0)"
    and g4: "connected (nodes world_open_two_timers 0)"
    and g5: "reconnectTimeout (nodes world_open_two_timers 0) = Some 4"
    and g6: "pending 0 world_open_two_timers = [3, 4]"
    by (simp_all add: world_open_two_timers_def example_defs pending_def connected_def)
  have t0: "trace world_closed = []"
    by (simp add: example_defs)
  have closed: "\<exists>w'. fire_timer 3 world_closed = Inr w'
         \<and> trace w' = [Emit (NodeError 0 (unable_to_connect (nodes world_closed 0)))]
         \<and> \<not> connected (nodes w' 0) \<and> pending 0 w' = []"
    using exhausted_retries_terminal [OF h1 h2 h3] h4 h5 t0
    by (auto simp add: emit_def)
  have opened: "\<exists>w'. fire_timer 3 world_open_two_timers = Inr w'
         \<and> socket (nodes w' 0) = None \<and> reconnectAttempts (nodes w' 0) = 1
         \<and> manager_node w' = None \<and> last (trace w') = Emit (NodeDestroy 0)
         \<and> 4 \<notin> fst ` set (timers w')"
    using exhausted_retries_terminal [OF g1 g2 g3] g4 g5
    by blast
  from h1 h2 h3 h4 h5 g1 g2 g3 g4 g5 g6 closed opened show ?thesis
    by simp
qed

text \<open>When the socket is not open at that moment, the \<open>destroy\<close> that the callback calls
  returns at its guard: the node-error signal is all that happens.\<close>

lemma exhausted_retries_not_connected:
  assumes "map_of (timers w) t = Some this"
    and "exhausted (nodes w this)"
    and "\<not> connected (nodes w this)"
  shows "fire_timer t w =
           Inr (emit (NodeError this (unable_to_connect (nodes w this)))
                  (w\<lparr>timers := filter (\<lambda>e. fst e \<noteq> t) (timers w)\<rparr>))"
  using assms by (simp add: fire_timer_def reconnect_callback_def destroy_def emit_def)

subsection \<open>The close handler\<close>

text \<open>
  C4, as the claim states it, fails: on a Node whose socket handle is null, a close event
  with code 1006 arms no timer, since \<open>reconnect\<close> returns at its guard.
\<close>

theorem close_arms_no_timer_without_socket:
  "socket (nodes world_null 0) = None
   \<and> timers (close 0 1006 [] world_null) = timers world_null
   \<and> pending 0 (close 0 1006 [] world_null) = []
   \<and> reconnectTimeout (nodes (close 0 1006 [] world_null) 0) = None"
  by (simp add: close_def reconnect_def pending_def world_null_def example_defs world_defs)

text \<open>
  C4, amended. A close event with code 1000 and reason "destroy" arms no reconnect timer.
  For every other pair of code and reason the close handler arms one timer, whose handle
  the Node keeps, when the Node holds a socket handle; it arms none when the handle is null.
\<close>

theorem close_arms_reconnect_timer:
  "(code = 1000 \<and> reason = ''destroy'' \<longrightarrow>
      timers (close this code reason w) = timers w
      \<and> nodes (close this code reason w) = nodes w)
   \<and> (\<not> (code = 1000 \<and> reason = ''destroy'') \<and> socket (nodes w this) \<noteq> None \<longrightarrow>
      timers (close this code reason w) = timers w @ [(next_timer w, this)]
      \<and> reconnectTimeout (nodes (close this code reason w) this) = Some (next_timer w))
   \<and> (socket (nodes w this) = None \<longrightarrow>
      timers (close this code reason w) = timers w)"
  by (auto simp add: close_def reconnect_def setTimeout_def Let_def world_defs
      split: option.splits)

theorem close_arms_reconnect_timer_witness:
  "timers (close 0 1000 ''destroy'' world_closed) = [(3, 0)]
   \<and> socket (nodes world_closed 0) \<noteq> None
   \<and> timers (close 0 1006 [] world_closed) = [(3, 0), (7, 0)]
   \<and> reconnectTimeout (nodes (close 0 1006 [] world_closed) 0) = Some 7
   \<and> timers (close 0 1000 ''bye'' world_closed) = [(3, 0), (7, 0)]
   \<and> socket (nodes world_null 0) = None
   \<and> timers (close 0 1006 [] world_null) = []"
  using close_arms_reconnect_timer [of 1000 "''destroy''" 0 world_closed]
    close_arms_reconnect_timer [of 1006 "[]" 0 world_closed]
    close_arms_reconnect_timer [of 1000 "''bye''" 0 world_closed]
    close_arms_reconnect_timer [of 1006 "[]" 0 world_null]
  by (simp add: world_null_def example_defs)

subsection \<open>The constructor\<close>

text \<open>
  C10. With the Manager initiated and its node slot occupied, the constructor returns the
  reference in the slot and leaves the world as it is: the store (so the options of the
  existing Node), the slot and the trace (so no \<^verbatim>\<open>nodeCreate\<close>) are unchanged.
\<close>

theorem constructor_returns_existing_node:
  assumes "manager_initiated w" and "manager_node w = Some existing"
  shows "Node_constructor opts random_password w = Inr (existing, w)"
  using assms by (simp add: Node_constructor_def)

theorem constructor_returns_existing_node_witness:
  "manager_initiated world_open \<and> manager_node world_open = Some 0
   \<and> Node_constructor (example_options\<lparr>port := None\<rparr>) ''pw'' world_open = Inr (0, world_open)"
proof -
  have h1: "manager_initiated world_open" and h2: "manager_node world_open = Some 0"
    by (simp_all add: example_defs)
  from h1 h2 constructor_returns_existing_node [OF h1 h2] show ?thesis
    by simp
qed

text \<open>With the slot empty the constructor does apply the defaults, fills the slot and
  signals \<^verbatim>\<open>nodeCreate\<close>.\<close>

lemma constructor_creates_node:
  assumes "manager_initiated w" and "manager_node w = None"
  shows "\<exists>w'. Node_constructor opts random_password w = Inr (next_ref w, w')
           \<and> manager_node w' = Some (next_ref w)
           \<and> options (nodes w' (next_ref w)) = with_defaults random_password opts
           \<and> trace w' = trace w @ [Emit (NodeCreate (next_ref w))]"
  using assms by (simp add: Node_constructor_def Let_def emit_def)

subsection \<open>send\<close>

text \<open>
  C3, as the claim states it, fails: \<open>send\<close> serialises before it looks at the connection,
  and an object with a BigInt property makes \<^verbatim>\<open>JSON.stringify\<close> throw inside the
  executor, so the promise of a Node that is not connected rejects.
\<close>

theorem send_disconnected_rejects_bigint:
  "\<not> connected (nodes world_closed 0)
   \<and> send (JObject [(''a'', JBigInt 1)]) None 0 world_closed
       = (Rejected (TypeError ''Do not know how to serialize a BigInt''), world_closed)"
  by (simp add: send_def example_defs connected_def)

text \<open>
  C3, amended. For every payload on which \<^verbatim>\<open>JSON.stringify\<close> does not throw, \<open>send\<close> on a
  Node that is not connected resolves to false, and nothing is written.
\<close>

theorem send_disconnected_resolves_false:
  assumes "JSON_stringify data = Inr stringified" and "\<not> connected (nodes w this)"
  shows "send data write_error this w = (Resolved False, w)"
  using assms by (simp add: send_def)

theorem send_disconnected_resolves_false_witness:
  "JSON_stringify (JObject [(''op'', JNumber 10)]) = Inr (Some (''{'' @ quote ''op'' @ '':'' @ show_int 10 @ ''}''))
   \<and> \<not> connected (nodes world_closed 0)
   \<and> send (JObject [(''op'', JNumber 10)]) None 0 world_closed = (Resolved False, world_closed)"
proof -
  have h1: "JSON_stringify (JObject [(''op'', JNumber 10)])
              = Inr (Some (''{'' @ quote ''op'' @ '':'' @ show_int 10 @ ''}''))"
    by simp
  have h2: "\<not> connected (nodes world_closed 0)"
    by (simp add: example_defs connected_def)
  from h1 h2 send_disconnected_resolves_false [OF h1 h2] show ?thesis
    by simp
qed

text \<open>
  C8, as the claim states it, fails: a function is truthy and \<^verbatim>\<open>JSON.stringify\<close> returns
  \<^verbatim>\<open>undefined\<close> for it, so the test of the first character throws and the promise rejects
  with that TypeError, not with the invalid-payload error; and for the falsy BigInt zero
  \<^verbatim>\<open>JSON.stringify\<close> throws before the payload is tested.
\<close>

theorem send_rejects_with_type_error:
  "connected (nodes world_open 0)
   \<and> \<not> object_shaped JFunction
   \<and> send JFunction None 0 world_open
       = (Rejected (TypeError ''Cannot read properties of undefined''), world_open)
   \<and> TypeError ''Cannot read properties of undefined'' \<noteq> improper_data
   \<and> \<not> truthy (JBigInt 0)
   \<and> send (JBigInt 0) None 0 world_open
       = (Rejected (TypeError ''Do not know how to serialize a BigInt''), world_open)
   \<and> TypeError ''Do not know how to serialize a BigInt'' \<noteq> improper_data"
  by (simp add: send_def object_shaped_def improper_data_def example_defs connected_def)

text \<open>
  C8, amended. On a connected Node, \<open>send\<close> of a payload that is falsy or not object-shaped
  rejects and writes nothing to the socket. The rejection is the invalid-payload error
  when \<^verbatim>\<open>JSON.stringify\<close> does not throw and the payload is falsy or serialises to a text;
  so it is for \<^verbatim>\<open>null\<close>.
\<close>

theorem send_invalid_payload_rejects:
  assumes "connected (nodes w this)" and "\<not> truthy data \<or> \<not> object_shaped data"
  shows "(\<exists>e. send data write_error this w = (Rejected e, w))
         \<and> (\<forall>r. JSON_stringify data = Inr r \<and> (\<not> truthy data \<or> r \<noteq> None) \<longrightarrow>
               send data write_error this w = (Rejected improper_data, w))
         \<and> send JNull write_error this w = (Rejected improper_data, w)"
  using assms
  by (auto simp add: send_def object_shaped_def split: sum.splits option.splits)

theorem send_invalid_payload_rejects_witness:
  "connected (nodes world_open 0) \<and> \<not> truthy JNull
   \<and> send JNull None 0 world_open = (Rejected improper_data, world_open)
   \<and> \<not> object_shaped (JArray [JNumber 1])
   \<and> send (JArray [JNumber 1]) None 0 world_open = (Rejected improper_data, world_open)"
proof -
  have h1: "connected (nodes world_open 0)"
    by (simp add: example_defs connected_def)
  have h2: "\<not> truthy JNull \<or> \<not> object_shaped JNull"
    by simp
  have h3: "\<not> truthy (JArray [JNumber 1]) \<or> \<not> object_shaped (JArray [JNumber 1])"
    by (simp add: object_shaped_def startsWith_def)
  have "JSON_stringify (JArray [JNumber 1]) = Inr (Some (''['' @ show_int 1 @ '']''))"
    by simp
  with h1 h3 send_invalid_payload_rejects [OF h1 h2, of None]
    send_invalid_payload_rejects [OF h1 h3, of None]
  show ?thesis
    by simp
qed

text \<open>An object-shaped payload on a connected Node is written to the socket, and the
  promise settles as the write does.\<close>

lemma send_object_writes:
  assumes "connected (nodes w this)" and "truthy data"
    and "JSON_stringify data = Inr (Some s)" and "startsWith s ''{''"
  shows "send data write_error this w =
           (case write_error of Some e \<Rightarrow> Rejected e | None \<Rightarrow> Resolved True,
            call (Socket_send s) w)"
  using assms by (simp add: send_def)

subsection \<open>The track-end decision\<close>

lemma queue_shift_Cons: "items q = x # xs \<Longrightarrow> queue_shift q = (x, q\<lparr>items := xs\<rparr>)"
  by (simp add: queue_shift_def)

text \<open>
  C5. A Player with a non-empty queue, a current track and single-track repeat enabled:
  on the finish event (\<open>handleTrackEvent\<close> passes the current track as the finished one)
  \<open>trackEnd\<close> signals track-end for that track, calls play, and returns the Player as it
  was, so \<open>current\<close> and the queue are unchanged.
\<close>

theorem trackEnd_track_repeat:
  assumes "queue_length (queue p) \<noteq> 0"
    and "current (queue p) = Some a"
    and "trackRepeat p"
  shows "trackEnd p (current (queue p)) pl =
           (p, [Emit (TrackEnd (guild_id p) (Some a)), Player_play (guild_id p)])"
  using assms by (simp add: trackEnd_def)

theorem trackEnd_track_repeat_witness:
  "queue_length (queue (example_player True False [Some ''B'', Some ''C''])) \<noteq> 0
   \<and> current (queue (example_player True False [Some ''B'', Some ''C''])) = Some ''A''
   \<and> trackRepeat (example_player True False [Some ''B'', Some ''C''])
   \<and> trackEnd (example_player True False [Some ''B'', Some ''C'']) (Some ''A'') example_payload =
       (example_player True False [Some ''B'', Some ''C''],
        [Emit (TrackEnd ''g1'' (Some ''A'')), Player_play ''g1''])"
proof -
  let ?p = "example_player True False [Some ''B'', Some ''C'']"
  have h1: "queue_length (queue ?p) \<noteq> 0"
    and h2: "current (queue ?p) = Some ''A''"
    and h3: "trackRepeat ?p"
    by (simp_all add: example_player_def queue_length_def)
  have "guild_id ?p = ''g1''"
    by (simp add: example_player_def)
  with h1 h2 h3 trackEnd_track_repeat [OF h1 h2 h3, of example_payload] show ?thesis
    by simp
qed

text \<open>
  C6. Both repeats disabled, current track A, queue B, C (more generally: a queue whose
  next entry is a track B, followed by further entries): \<open>trackEnd\<close> sets \<open>previous\<close> to A
  and \<open>current\<close> to B, leaves the entries after B in the queue, signals track-end for A
  and calls play.
\<close>

theorem trackEnd_advances:
  assumes "\<not> trackRepeat p" and "\<not> queueRepeat p"
    and "current (queue p) = Some a"
    and "items (queue p) = Some b # rest" and "rest \<noteq> []"
  shows "trackEnd p (Some a) pl =
           (p\<lparr>queue := \<lparr>items = rest, current = Some b, previous = Some a\<rparr>\<rparr>,
            [Emit (TrackEnd (guild_id p) (Some a)), Player_play (guild_id p)])"
  using assms by (simp add: trackEnd_def queue_length_def queue_shift_Cons)

theorem trackEnd_advances_witness:
  "\<not> trackRepeat (example_player False False [Some ''B'', Some ''C''])
   \<and> \<not> queueRepeat (example_player False False [Some ''B'', Some ''C''])
   \<and> current (queue (example_player False False [Some ''B'', Some ''C''])) = Some ''A''
   \<and> items (queue (example_player False False [Some ''B'', Some ''C''])) = [Some ''B'', Some ''C'']
   \<and> trackEnd (example_player False False [Some ''B'', Some ''C'']) (Some ''A'') example_payload =
       ((example_player False False [Some ''B'', Some ''C''])
          \<lparr>queue := \<lparr>items = [Some ''C''], current = Some ''B'', previous = Some ''A''\<rparr>\<rparr>,
        [Emit (TrackEnd ''g1'' (Some ''A'')), Player_play ''g1''])"
proof -
  let ?p = "example_player False False [Some ''B'', Some ''C'']"
  have h1: "\<not> trackRepeat ?p" and h2: "\<not> queueRepeat ?p"
    and h3: "current (queue ?p) = Some ''A''"
    and h4: "items (queue ?p) = Some ''B'' # [Some ''C'']"
    and h5: "[Some ''C''] \<noteq> []"
    by (simp_all add: example_player_def)
  have "guild_id ?p = ''g1''"
    by (simp add: example_player_def)
  with h1 h2 h3 h4 trackEnd_advances [OF h1 h2 h3 h4 h5, of example_payload] show ?thesis
    by simp
qed

text \<open>
  C7, as the claim states it, fails: with single-track repeat enabled as well, the check
  of single-track repeat comes first, and the queue is not advanced.
\<close>

theorem track_repeat_precedes_queue_repeat:
  "queueRepeat (example_player True True [Some ''B''])
   \<and> current (queue (example_player True True [Some ''B''])) = Some ''A''
   \<and> items (queue (example_player True True [Some ''B''])) = [Some ''B'']
   \<and> trackEnd (example_player True True [Some ''B'']) (Some ''A'') example_payload =
       (example_player True True [Some ''B''],
        [Emit (TrackEnd ''g1'' (Some ''A'')), Player_play ''g1''])
   \<and> current (queue (fst (trackEnd (example_player True True [Some ''B'']) (Some ''A'')
                             example_payload))) \<noteq> Some ''B''"
  by (simp add: trackEnd_def example_player_def queue_length_def)

text \<open>
  C7, amended. Whole-queue repeat enabled and single-track repeat disabled, current track
  A, a queue whose next entry is a track B: \<open>trackEnd\<close> sets \<open>previous\<close> to A and \<open>current\<close>
  to B, appends A to the entries after B (queue B becomes queue A), signals track-end for
  A and calls play.
\<close>

theorem trackEnd_queue_repeat:
  assumes "queueRepeat p" and "\<not> trackRepeat p"
    and "current (queue p) = Some a"
    and "items (queue p) = Some b # rest"
  shows "trackEnd p (Some a) pl =
           (p\<lparr>queue := \<lparr>items = rest @ [Some a], current = Some b, previous = Some a\<rparr>\<rparr>,
            [Emit (TrackEnd (guild_id p) (Some a)), Player_play (guild_id p)])"
  using assms by (simp add: trackEnd_def queue_length_def queue_shift_Cons queue_add_def)

theorem trackEnd_queue_repeat_witness:
  "queueRepeat (example_player False True [Some ''B''])
   \<and> \<not> trackRepeat (example_player False True [Some ''B''])
   \<and> current (queue (example_player False True [Some ''B''])) = Some ''A''
   \<and> items (queue (example_player False True [Some ''B''])) = [Some ''B'']
   \<and> trackEnd (example_player False True [Some ''B'']) (Some ''A'') example_payload =
       ((example_player False True [Some ''B''])
          \<lparr>queue := \<lparr>items = [Some ''A''], current = Some ''B'', previous = Some ''A''\<rparr>\<rparr>,
        [Emit (TrackEnd ''g1'' (Some ''A'')), Player_play ''g1''])"
proof -
  let ?p = "example_player False True [Some ''B'']"
  have h1: "queueRepeat ?p" and h2: "\<not> trackRepeat ?p"
    and h3: "current (queue ?p) = Some ''A''"
    and h4: "items (queue ?p) = Some ''B'' # []"
    by (simp_all add: example_player_def)
  have "guild_id ?p = ''g1''"
    by (simp add: example_player_def)
  with h1 h2 h3 h4 trackEnd_queue_repeat [OF h1 h2 h3 h4, of example_payload] show ?thesis
    by simp
qed

text \<open>
  C2, as the claim states it, fails: the queue reports an entry, both repeats are disabled
  and the pop yields no track; \<open>trackEnd\<close> then signals nothing, so no queue-end.
\<close>

theorem trackEnd_empty_pop_without_repeat:
  "queue_length (queue (example_player False False [None])) \<noteq> 0
   \<and> fst (queue_shift (queue (example_player False False [None]))) = None
   \<and> snd (trackEnd (example_player False False [None]) (Some ''A'') example_payload) = []"
  by (simp add: trackEnd_def example_player_def queue_length_def queue_shift_def)

text \<open>
  C2, amended. The queue reports remaining entries, there is a finished track,
  single-track repeat is disabled (so the decision advances) and the pop yields no track:
  when whole-queue repeat is enabled, \<open>trackEnd\<close> signals queue-end and nothing else, so
  play is not called.
\<close>

theorem trackEnd_empty_pop_queue_repeat:
  assumes "queue_length (queue p) \<noteq> 0"
    and "\<not> trackRepeat p"
    and "fst (queue_shift (queue p)) = None"
    and "queueRepeat p"
  shows "snd (trackEnd p (Some a) pl) = [Emit (QueueEnd (guild_id p) pl)]"
  using assms
  by (simp add: trackEnd_def queueEnd_def queue_shift_def queue_length_def
      split: list.splits prod.splits)

theorem trackEnd_empty_pop_queue_repeat_witness:
  "queue_length (queue (example_player False True [None, Some ''C''])) \<noteq> 0
   \<and> \<not> trackRepeat (example_player False True [None, Some ''C''])
   \<and> fst (queue_shift (queue (example_player False True [None, Some ''C'']))) = None
   \<and> queueRepeat (example_player False True [None, Some ''C''])
   \<and> snd (trackEnd (example_player False True [None, Some ''C'']) (Some ''A'') example_payload)
       = [Emit (QueueEnd ''g1'' example_payload)]"
proof -
  let ?p = "example_player False True [None, Some ''C'']"
  have h1: "queue_length (queue ?p) \<noteq> 0"
    and h2: "\<not> trackRepeat ?p"
    and h3: "fst (queue_shift (queue ?p)) = None"
    and h4: "queueRepeat ?p"
    by (simp_all add: example_player_def queue_length_def queue_shift_def)
  have "guild_id ?p = ''g1''"
    by (simp add: example_player_def)
  with h1 h2 h3 h4 trackEnd_empty_pop_queue_repeat [OF h1 h2 h3 h4, of "''A''" example_payload]
  show ?thesis
    by simp
qed

text \<open>The finish event reaches \<open>trackEnd\<close> through \<open>handleTrackEvent\<close>, with the current
  track of the Player as the finished track.\<close>

lemma handleTrackEvent_queue_end:
  assumes "map_of (players w) (p_guild_id pl) = Some p" and "p_t pl = Some ''QUEUE_END''"
  shows "handleTrackEvent pl w =
           w\<lparr>players := AList.update (p_guild_id pl) (fst (trackEnd p (current (queue p)) pl))
                          (players w),
             trace := trace w @ snd (trackEnd p (current (queue p)) pl)\<rparr>"
  using assms by (simp add: handleTrackEvent_def Let_def split: prod.splits)

end
